theory Spec2Isabelle
  imports Main "HOL-Library.Sublist"
begin

section \<open>The CSS selector builder of src/06-objects-tasks.js\<close>

text \<open>
  The class \<open>Builder\<close> holds one field, \<open>this.selector\<close>, an object of six properties.
  The properties \<open>element\<close>, \<open>id\<close> and \<open>pseudoElement\<close> are strings, with the empty
  string standing for "not given"; \<open>class\<close>, \<open>attr\<close> and \<open>pseudoClass\<close> are arrays of
  strings. A JavaScript string is modelled as a \<open>string\<close>; the code only concatenates
  strings and compares them with the empty string. Field names carry the prefix
  \<open>selector_\<close>, since \<open>id\<close> is a constant of HOL and the methods of the class share
  the names of the fields.
\<close>

subsection \<open>Data\<close>

record selector =
  selector_element :: string
  selector_id :: string
  selector_class :: "string list"
  selector_attr :: "string list"
  selector_pseudoClass :: "string list"
  selector_pseudoElement :: string

text \<open>
  The argument of the constructor: an object literal in which each property may be
  missing (\<open>undefined\<close>, here \<open>None\<close>).
\<close>

record options =
  options_element :: "string option"
  options_id :: "string option"
  options_class :: "string list option"
  options_attr :: "string list option"
  options_pseudoClass :: "string list option"
  options_pseudoElement :: "string option"

text \<open>
  What a call throws. The methods of \<open>Builder\<close> throw \<open>new Error(message)\<close>;
  \<open>TypeError\<close> is what JavaScript itself throws when \<open>stringify\<close> or a fragment method
  is called on a value that has no such method.
\<close>

datatype error = Error string | TypeError

definition order_message :: string where
  "order_message =
     ''Selector parts should be arranged in the following order: element, id, class, attribute, pseudo-class, pseudo-element''"

definition duplicate_message :: string where
  "duplicate_message =
     ''Element, id and pseudo-element should not occur more then one time inside the selector''"

subsection \<open>Built-ins of the language\<close>

text \<open>
  \<open>Array.prototype.join\<close> on an array of strings: the elements in order, the separator
  between any two neighbours, the empty string for the empty array.
\<close>

fun Array_join :: "string list \<Rightarrow> string \<Rightarrow> string" where
  "Array_join [] sep = []"
| "Array_join [x] sep = x"
| "Array_join (x # y # ys) sep = x @ sep @ Array_join (y # ys) sep"

text \<open>
  \<open>v || ''\<close> for \<open>v\<close> a string or \<open>undefined\<close>: the empty string is falsy, so the right
  operand is taken for it too. \<open>v || []\<close> for \<open>v\<close> an array or \<open>undefined\<close>: every array
  is truthy.
\<close>

definition or_empty_string :: "string option \<Rightarrow> string" where
  "or_empty_string v = (case v of None \<Rightarrow> [] | Some s \<Rightarrow> if s = [] then [] else s)"

definition or_empty_array :: "string list option \<Rightarrow> string list" where
  "or_empty_array v = (case v of None \<Rightarrow> [] | Some xs \<Rightarrow> xs)"

subsection \<open>The class Builder\<close>

definition Builder_constructor :: "options \<Rightarrow> selector" where
  "Builder_constructor opts =
     \<lparr> selector_element = or_empty_string (options_element opts),
       selector_id = or_empty_string (options_id opts),
       selector_class = or_empty_array (options_class opts),
       selector_attr = or_empty_array (options_attr opts),
       selector_pseudoClass = or_empty_array (options_pseudoClass opts),
       selector_pseudoElement = or_empty_string (options_pseudoElement opts) \<rparr>"

text \<open>
  \<open>createSelector\<close> pushes the pieces onto the array \<open>arr\<close> and joins it with the empty
  separator. \<open>selector.class.length\<close> as a condition is true exactly when the length is
  not zero; the \<open>typeof ... === 'object'\<close> tests hold for every array.
\<close>

definition Builder_createSelector :: "selector \<Rightarrow> string" where
  "Builder_createSelector sel =
     (let arr0 = [selector_element sel];
          arr1 = (if selector_id sel \<noteq> [] then arr0 @ [''#'' @ selector_id sel] else arr0);
          arr2 = (if length (selector_class sel) \<noteq> 0
                  then arr1 @ [''.'' @ Array_join (selector_class sel) ''.''] else arr1);
          arr3 = foldl (\<lambda>arr element. arr @ [''['' @ element @ '']'']) arr2 (selector_attr sel);
          arr4 = (if length (selector_pseudoClass sel) \<noteq> 0
                  then arr3 @ ['':'' @ Array_join (selector_pseudoClass sel) '':''] else arr3);
          arr5 = (if selector_pseudoElement sel \<noteq> []
                  then arr4 @ [''::'' @ selector_pseudoElement sel] else arr4)
      in Array_join arr5 [])"

definition Builder_resetData :: "selector \<Rightarrow> selector" where
  "Builder_resetData this =
     this\<lparr> selector_element := [], selector_id := [], selector_class := [],
           selector_attr := [], selector_pseudoClass := [], selector_pseudoElement := [] \<rparr>"

text \<open>\<open>stringify\<close> returns the string and leaves the object reset.\<close>

definition Builder_stringify :: "selector \<Rightarrow> string \<times> selector" where
  "Builder_stringify this =
     (let result = Builder_createSelector this in (result, Builder_resetData this))"

text \<open>
  A fragment method either returns \<open>this\<close> (here \<open>Inr ()\<close>, with the object's new state)
  or throws (here \<open>Inl\<close> of the error, with the state the object is left in).
\<close>

definition Builder_element :: "string \<Rightarrow> selector \<Rightarrow> (error + unit) \<times> selector" where
  "Builder_element v this =
     (if selector_id this \<noteq> [] \<or> length (selector_class this) > 0
         \<or> length (selector_attr this) > 0 \<or> length (selector_pseudoClass this) > 0
         \<or> selector_pseudoElement this \<noteq> []
      then (Inl (Error order_message), Builder_resetData this)
      else if selector_element this \<noteq> []
      then (Inl (Error duplicate_message), Builder_resetData this)
      else (Inr (), this\<lparr>selector_element := v\<rparr>))"

definition Builder_id :: "string \<Rightarrow> selector \<Rightarrow> (error + unit) \<times> selector" where
  "Builder_id v this =
     (if length (selector_class this) > 0 \<or> length (selector_attr this) > 0
         \<or> length (selector_pseudoClass this) > 0 \<or> selector_pseudoElement this \<noteq> []
      then (Inl (Error order_message), Builder_resetData this)
      else if selector_id this \<noteq> []
      then (Inl (Error duplicate_message), Builder_resetData this)
      else (Inr (), this\<lparr>selector_id := v\<rparr>))"

definition Builder_class :: "string \<Rightarrow> selector \<Rightarrow> (error + unit) \<times> selector" where
  "Builder_class v this =
     (if length (selector_attr this) > 0 \<or> length (selector_pseudoClass this) > 0
         \<or> selector_pseudoElement this \<noteq> []
      then (Inl (Error order_message), Builder_resetData this)
      else (Inr (), this\<lparr>selector_class := selector_class this @ [v]\<rparr>))"

definition Builder_attr :: "string \<Rightarrow> selector \<Rightarrow> (error + unit) \<times> selector" where
  "Builder_attr v this =
     (if length (selector_pseudoClass this) > 0 \<or> selector_pseudoElement this \<noteq> []
      then (Inl (Error order_message), Builder_resetData this)
      else (Inr (), this\<lparr>selector_attr := selector_attr this @ [v]\<rparr>))"

definition Builder_pseudoClass :: "string \<Rightarrow> selector \<Rightarrow> (error + unit) \<times> selector" where
  "Builder_pseudoClass v this =
     (if selector_pseudoElement this \<noteq> []
      then (Inl (Error order_message), Builder_resetData this)
      else (Inr (), this\<lparr>selector_pseudoClass := selector_pseudoClass this @ [v]\<rparr>))"

definition Builder_pseudoElement :: "string \<Rightarrow> selector \<Rightarrow> (error + unit) \<times> selector" where
  "Builder_pseudoElement v this =
     (if selector_pseudoElement this \<noteq> []
      then (Inl (Error duplicate_message), Builder_resetData this)
      else (Inr (), this\<lparr>selector_pseudoElement := v\<rparr>))"

subsection \<open>The facade cssSelectorBuilder: the six factories\<close>

definition no_options :: options where
  "no_options =
     \<lparr> options_element = None, options_id = None, options_class = None,
       options_attr = None, options_pseudoClass = None, options_pseudoElement = None \<rparr>"

definition cssSelectorBuilder_element :: "string \<Rightarrow> selector" where
  "cssSelectorBuilder_element v = Builder_constructor (no_options\<lparr>options_element := Some v\<rparr>)"

definition cssSelectorBuilder_id :: "string \<Rightarrow> selector" where
  "cssSelectorBuilder_id v = Builder_constructor (no_options\<lparr>options_id := Some v\<rparr>)"

definition cssSelectorBuilder_class :: "string \<Rightarrow> selector" where
  "cssSelectorBuilder_class v = Builder_constructor (no_options\<lparr>options_class := Some [v]\<rparr>)"

definition cssSelectorBuilder_attr :: "string \<Rightarrow> selector" where
  "cssSelectorBuilder_attr v = Builder_constructor (no_options\<lparr>options_attr := Some [v]\<rparr>)"

definition cssSelectorBuilder_pseudoClass :: "string \<Rightarrow> selector" where
  "cssSelectorBuilder_pseudoClass v =
     Builder_constructor (no_options\<lparr>options_pseudoClass := Some [v]\<rparr>)"

definition cssSelectorBuilder_pseudoElement :: "string \<Rightarrow> selector" where
  "cssSelectorBuilder_pseudoElement v =
     Builder_constructor (no_options\<lparr>options_pseudoElement := Some v\<rparr>)"

subsection \<open>Chains of calls\<close>

text \<open>
  A chain \<open>builder.element('a').id('x')...\<close> is a factory call followed by fragment
  calls on the object the factory returned. A call that throws ends the chain; the
  object keeps the state the throwing method left.
\<close>

datatype call =
    Call_element string
  | Call_id string
  | Call_class string
  | Call_attr string
  | Call_pseudoClass string
  | Call_pseudoElement string

fun factory :: "call \<Rightarrow> selector" where
  "factory (Call_element v) = cssSelectorBuilder_element v"
| "factory (Call_id v) = cssSelectorBuilder_id v"
| "factory (Call_class v) = cssSelectorBuilder_class v"
| "factory (Call_attr v) = cssSelectorBuilder_attr v"
| "factory (Call_pseudoClass v) = cssSelectorBuilder_pseudoClass v"
| "factory (Call_pseudoElement v) = cssSelectorBuilder_pseudoElement v"

fun fragment :: "call \<Rightarrow> selector \<Rightarrow> (error + unit) \<times> selector" where
  "fragment (Call_element v) this = Builder_element v this"
| "fragment (Call_id v) this = Builder_id v this"
| "fragment (Call_class v) this = Builder_class v this"
| "fragment (Call_attr v) this = Builder_attr v this"
| "fragment (Call_pseudoClass v) this = Builder_pseudoClass v this"
| "fragment (Call_pseudoElement v) this = Builder_pseudoElement v this"

fun fragments :: "call list \<Rightarrow> selector \<Rightarrow> (error + unit) \<times> selector" where
  "fragments [] this = (Inr (), this)"
| "fragments (c # cs) this =
     (case fragment c this of
        (Inl e, this') \<Rightarrow> (Inl e, this')
      | (Inr u, this') \<Rightarrow> fragments cs this')"

text \<open>
  The states a builder can be in: what a factory returns, and what a fragment call that
  returned leaves.
\<close>

inductive reachable :: "selector \<Rightarrow> bool" where
  reachable_factory: "reachable (factory c)"
| reachable_fragment:
    "reachable this \<Longrightarrow> fragment c this = (Inr (), this') \<Longrightarrow> reachable this'"

text \<open>A chain followed by \<open>stringify()\<close>: the string, or the error of the call that threw.\<close>

definition then_stringify :: "call list \<Rightarrow> selector \<Rightarrow> (error + string) \<times> selector" where
  "then_stringify cs this =
     (case fragments cs this of
        (Inl e, this') \<Rightarrow> (Inl e, this')
      | (Inr u, this') \<Rightarrow> (Inr (fst (Builder_stringify this')), snd (Builder_stringify this')))"

subsection \<open>Objects, references and combine\<close>

text \<open>
  \<open>combine\<close> takes two objects and calls \<open>stringify\<close> on each, which mutates a
  \<open>Builder\<close>; the two arguments may be the same object. So objects live in a store, a
  list of objects, and a reference is an index into it. An object is a \<open>Builder\<close> with
  its state, or the object literal that \<open>combine\<close> returns, whose \<open>stringify\<close> closes
  over the string \<open>result\<close>. A reference outside the store stands for a value with no
  \<open>stringify\<close> method.
\<close>

datatype obj = Builder selector | Composite string

type_synonym ref = nat

type_synonym store = "obj list"

definition new_object :: "obj \<Rightarrow> store \<Rightarrow> ref \<times> store" where
  "new_object ob st = (length st, st @ [ob])"

definition stringify :: "ref \<Rightarrow> store \<Rightarrow> (error + string) \<times> store" where
  "stringify r st =
     (if r < length st then
        (case st ! r of
           Builder this \<Rightarrow>
             (let (result, this') = Builder_stringify this
              in (Inr result, st[r := Builder this']))
         | Composite result \<Rightarrow> (Inr result, st))
      else (Inl TypeError, st))"

definition cssSelectorBuilder_combine ::
    "ref \<Rightarrow> string \<Rightarrow> ref \<Rightarrow> store \<Rightarrow> (error + ref) \<times> store" where
  "cssSelectorBuilder_combine selector1 combinator selector2 st =
     (case stringify selector1 st of
        (Inl e, st1) \<Rightarrow> (Inl e, st1)
      | (Inr sel1, st1) \<Rightarrow>
          (case stringify selector2 st1 of
             (Inl e, st2) \<Rightarrow> (Inl e, st2)
           | (Inr sel2, st2) \<Rightarrow>
               (let result = Array_join [sel1, combinator, sel2] '' '';
                    (r, st3) = new_object (Composite result) st2
                in (Inr r, st3))))"

text \<open>A fragment method called through a reference; it returns the reference it was called on.\<close>

definition call_fragment :: "call \<Rightarrow> ref \<Rightarrow> store \<Rightarrow> (error + ref) \<times> store" where
  "call_fragment c r st =
     (if r < length st then
        (case st ! r of
           Builder this \<Rightarrow>
             (case fragment c this of
                (Inl e, this') \<Rightarrow> (Inl e, st[r := Builder this'])
              | (Inr u, this') \<Rightarrow> (Inr r, st[r := Builder this']))
         | Composite result \<Rightarrow> (Inl TypeError, st))
      else (Inl TypeError, st))"

fun call_fragments :: "call list \<Rightarrow> ref \<Rightarrow> store \<Rightarrow> (error + ref) \<times> store" where
  "call_fragments [] r st = (Inr r, st)"
| "call_fragments (c # cs) r st =
     (case call_fragment c r st of
        (Inl e, st') \<Rightarrow> (Inl e, st')
      | (Inr r', st') \<Rightarrow> call_fragments cs r' st')"

text \<open>
  Expressions of client code such as
  \<open>builder.combine(builder.element('div').id('main'), '+', builder.element('table'))\<close>:
  arguments are evaluated from left to right, each chain on an object of its own.
\<close>

datatype expr = Chain call "call list" | Combine expr string expr

fun evaluate :: "expr \<Rightarrow> store \<Rightarrow> (error + ref) \<times> store" where
  "evaluate (Chain c cs) st =
     (let (r, st1) = new_object (Builder (factory c)) st in call_fragments cs r st1)"
| "evaluate (Combine a combinator b) st =
     (case evaluate a st of
        (Inl e, st1) \<Rightarrow> (Inl e, st1)
      | (Inr l, st1) \<Rightarrow>
          (case evaluate b st1 of
             (Inl e, st2) \<Rightarrow> (Inl e, st2)
           | (Inr r, st2) \<Rightarrow> cssSelectorBuilder_combine l combinator r st2))"

text \<open>\<open>stringify()\<close> called \<open>n\<close> times on one reference: the results in order, and the store left.\<close>

fun stringify_times :: "nat \<Rightarrow> ref \<Rightarrow> store \<Rightarrow> (error + string) list \<times> store" where
  "stringify_times 0 r st = ([], st)"
| "stringify_times (Suc n) r st =
     (let (x, st1) = stringify r st;
          (xs, st2) = stringify_times n r st1
      in (x # xs, st2))"

subsection \<open>The specification's reading of the builder\<close>

text \<open>
  The string the specification describes for a selector: the element token, \<open>#\<close> and the
  id if there is one, \<open>.\<close> and the classes joined with \<open>.\<close> if there are any, each
  attribute in brackets, \<open>:\<close> and the pseudo-classes joined with \<open>:\<close> if there are any,
  \<open>::\<close> and the pseudo-element if there is one, with nothing between the categories.
\<close>

definition spec_selector_string :: "selector \<Rightarrow> string" where
  "spec_selector_string sel =
     selector_element sel
     @ (if selector_id sel = [] then [] else ''#'' @ selector_id sel)
     @ (if selector_class sel = [] then [] else ''.'' @ Array_join (selector_class sel) ''.'')
     @ concat (map (\<lambda>a. ''['' @ a @ '']'') (selector_attr sel))
     @ (if selector_pseudoClass sel = [] then []
        else '':'' @ Array_join (selector_pseudoClass sel) '':'')
     @ (if selector_pseudoElement sel = [] then [] else ''::'' @ selector_pseudoElement sel)"

text \<open>
  The six categories in the specification's fixed order, and what it means for a
  category to be populated in a state: a non-empty token for the three single-token
  categories, a non-empty sequence for the other three.
\<close>

datatype category =
    Cat_element | Cat_id | Cat_class | Cat_attr | Cat_pseudoClass | Cat_pseudoElement

fun category_index :: "category \<Rightarrow> nat" where
  "category_index Cat_element = 0"
| "category_index Cat_id = 1"
| "category_index Cat_class = 2"
| "category_index Cat_attr = 3"
| "category_index Cat_pseudoClass = 4"
| "category_index Cat_pseudoElement = 5"

definition categories :: "category list" where
  "categories = [Cat_element, Cat_id, Cat_class, Cat_attr, Cat_pseudoClass, Cat_pseudoElement]"

fun category_of :: "call \<Rightarrow> category" where
  "category_of (Call_element v) = Cat_element"
| "category_of (Call_id v) = Cat_id"
| "category_of (Call_class v) = Cat_class"
| "category_of (Call_attr v) = Cat_attr"
| "category_of (Call_pseudoClass v) = Cat_pseudoClass"
| "category_of (Call_pseudoElement v) = Cat_pseudoElement"

fun populated :: "category \<Rightarrow> selector \<Rightarrow> bool" where
  "populated Cat_element sel = (selector_element sel \<noteq> [])"
| "populated Cat_id sel = (selector_id sel \<noteq> [])"
| "populated Cat_class sel = (selector_class sel \<noteq> [])"
| "populated Cat_attr sel = (selector_attr sel \<noteq> [])"
| "populated Cat_pseudoClass sel = (selector_pseudoClass sel \<noteq> [])"
| "populated Cat_pseudoElement sel = (selector_pseudoElement sel \<noteq> [])"

definition later_populated :: "category \<Rightarrow> selector \<Rightarrow> bool" where
  "later_populated k sel =
     list_ex (\<lambda>k'. category_index k < category_index k' \<and> populated k' sel) categories"

fun singleton_category :: "category \<Rightarrow> bool" where
  "singleton_category Cat_element = True"
| "singleton_category Cat_id = True"
| "singleton_category Cat_pseudoElement = True"
| "singleton_category k = False"

definition empty_selector :: selector where
  "empty_selector =
     \<lparr> selector_element = [], selector_id = [], selector_class = [],
       selector_attr = [], selector_pseudoClass = [], selector_pseudoElement = [] \<rparr>"

text \<open>
  A category-ordered sequence of fragment calls: at most one element, at most one id,
  any number of classes, of attributes and of pseudo-classes, at most one
  pseudo-element, in this order.
\<close>

definition ordered_calls ::
    "string option \<Rightarrow> string option \<Rightarrow> string list \<Rightarrow> string list \<Rightarrow> string list
      \<Rightarrow> string option \<Rightarrow> call list" where
  "ordered_calls e i cs as ps pe =
     (case e of None \<Rightarrow> [] | Some v \<Rightarrow> [Call_element v])
     @ (case i of None \<Rightarrow> [] | Some v \<Rightarrow> [Call_id v])
     @ map Call_class cs @ map Call_attr as @ map Call_pseudoClass ps
     @ (case pe of None \<Rightarrow> [] | Some v \<Rightarrow> [Call_pseudoElement v])"

definition token_or_empty :: "string option \<Rightarrow> string" where
  "token_or_empty t = (case t of None \<Rightarrow> [] | Some v \<Rightarrow> v)"

section \<open>Properties\<close>

subsection \<open>Auxiliary facts\<close>

lemmas facade_defs =
  cssSelectorBuilder_element_def cssSelectorBuilder_id_def cssSelectorBuilder_class_def
  cssSelectorBuilder_attr_def cssSelectorBuilder_pseudoClass_def
  cssSelectorBuilder_pseudoElement_def Builder_constructor_def no_options_def
  or_empty_string_def or_empty_array_def

lemmas method_defs =
  Builder_element_def Builder_id_def Builder_class_def Builder_attr_def
  Builder_pseudoClass_def Builder_pseudoElement_def

lemma Array_join_empty_separator: "Array_join xs [] = concat xs"
  by (induction xs "[] :: string" rule: Array_join.induct) simp_all

lemma foldl_push: "foldl (\<lambda>arr x. arr @ [f x]) arr0 xs = arr0 @ map f xs"
  by (induction xs arbitrary: arr0) simp_all

lemma createSelector_spec: "Builder_createSelector sel = spec_selector_string sel"
  by (simp add: Builder_createSelector_def spec_selector_string_def Let_def
      Array_join_empty_separator foldl_push)

text \<open>The dot-joined group is each class with its own dot in front.\<close>

lemma prefixed_join:
  "xs \<noteq> [] \<Longrightarrow> sep @ Array_join xs sep = concat (map (\<lambda>x. sep @ x) xs)"
  by (induction xs sep rule: Array_join.induct) simp_all

lemma resetData_empty: "Builder_resetData this = empty_selector"
  by (simp add: Builder_resetData_def empty_selector_def)

lemma constructor_no_options: "Builder_constructor no_options = empty_selector"
  by (simp add: facade_defs empty_selector_def)

lemma messages_differ: "order_message \<noteq> duplicate_message"
  by (simp add: order_message_def duplicate_message_def)

text \<open>A fragment call throws one of the two errors, leaving the empty state, or returns.\<close>

lemma fragment_cases:
  "fragment c this = (Inl (Error order_message), empty_selector)
   \<or> fragment c this = (Inl (Error duplicate_message), empty_selector)
   \<or> (\<exists>this'. fragment c this = (Inr (), this'))"
  by (cases c) (simp_all add: method_defs resetData_empty)

lemma later_populated_simps:
  "later_populated Cat_element sel \<longleftrightarrow>
     selector_id sel \<noteq> [] \<or> selector_class sel \<noteq> [] \<or> selector_attr sel \<noteq> []
     \<or> selector_pseudoClass sel \<noteq> [] \<or> selector_pseudoElement sel \<noteq> []"
  "later_populated Cat_id sel \<longleftrightarrow>
     selector_class sel \<noteq> [] \<or> selector_attr sel \<noteq> []
     \<or> selector_pseudoClass sel \<noteq> [] \<or> selector_pseudoElement sel \<noteq> []"
  "later_populated Cat_class sel \<longleftrightarrow>
     selector_attr sel \<noteq> [] \<or> selector_pseudoClass sel \<noteq> [] \<or> selector_pseudoElement sel \<noteq> []"
  "later_populated Cat_attr sel \<longleftrightarrow>
     selector_pseudoClass sel \<noteq> [] \<or> selector_pseudoElement sel \<noteq> []"
  "later_populated Cat_pseudoClass sel \<longleftrightarrow> selector_pseudoElement sel \<noteq> []"
  "later_populated Cat_pseudoElement sel \<longleftrightarrow> False"
  by (simp_all add: later_populated_def categories_def)

text \<open>Exactly when each error is thrown, in the specification's terms.\<close>

lemma fragment_order_iff:
  "fst (fragment c this) = Inl (Error order_message) \<longleftrightarrow> later_populated (category_of c) this"
  by (cases c) (simp_all add: method_defs later_populated_simps
      messages_differ messages_differ [symmetric])

lemma fragment_duplicate_iff:
  "fst (fragment c this) = Inl (Error duplicate_message) \<longleftrightarrow>
     singleton_category (category_of c) \<and> populated (category_of c) this
     \<and> \<not> later_populated (category_of c) this"
  by (cases c) (auto simp add: method_defs later_populated_simps
      messages_differ messages_differ [symmetric])

text \<open>A factory call is the fragment call on a builder constructed with no options.\<close>

lemma factory_is_first_fragment: "fragment c empty_selector = (Inr (), factory c)"
  by (cases c) (simp_all add: method_defs facade_defs empty_selector_def)

lemma fragments_append:
  "fragments (xs @ ys) this =
     (case fragments xs this of
        (Inl e, this') \<Rightarrow> (Inl e, this')
      | (Inr u, this') \<Rightarrow> fragments ys this')"
  by (induction xs arbitrary: this) (auto split: prod.splits sum.splits)

lemma fragments_classes:
  "selector_attr this = [] \<Longrightarrow> selector_pseudoClass this = [] \<Longrightarrow>
   selector_pseudoElement this = [] \<Longrightarrow>
     fragments (map Call_class cs) this
       = (Inr (), this\<lparr>selector_class := selector_class this @ cs\<rparr>)"
  by (induction cs arbitrary: this) (simp_all add: Builder_class_def)

lemma fragments_attrs:
  "selector_pseudoClass this = [] \<Longrightarrow> selector_pseudoElement this = [] \<Longrightarrow>
     fragments (map Call_attr as) this
       = (Inr (), this\<lparr>selector_attr := selector_attr this @ as\<rparr>)"
  by (induction as arbitrary: this) (simp_all add: Builder_attr_def)

lemma fragments_pseudoClasses:
  "selector_pseudoElement this = [] \<Longrightarrow>
     fragments (map Call_pseudoClass ps) this
       = (Inr (), this\<lparr>selector_pseudoClass := selector_pseudoClass this @ ps\<rparr>)"
  by (induction ps arbitrary: this) (simp_all add: Builder_pseudoClass_def)

text \<open>
  Every category-ordered sequence of calls runs without an error and stores the
  tokens it was given.
\<close>

lemma fragments_ordered_calls:
  "fragments (ordered_calls e i cs as ps pe) empty_selector
   = (Inr (), \<lparr> selector_element = token_or_empty e, selector_id = token_or_empty i,
        selector_class = cs, selector_attr = as, selector_pseudoClass = ps,
        selector_pseudoElement = token_or_empty pe \<rparr>)"
  by (simp add: ordered_calls_def fragments_append fragments_classes fragments_attrs
      fragments_pseudoClasses token_or_empty_def empty_selector_def Builder_element_def
      Builder_id_def Builder_pseudoElement_def split: option.splits)

text \<open>Facts about the store.\<close>

lemma stringify_Builder:
  "r < length st \<Longrightarrow> st ! r = Builder this \<Longrightarrow>
     stringify r st = (Inr (Builder_createSelector this), st[r := Builder empty_selector])"
  by (simp add: stringify_def Builder_stringify_def resetData_empty)

lemma stringify_Composite:
  "r < length st \<Longrightarrow> st ! r = Composite result \<Longrightarrow> stringify r st = (Inr result, st)"
  by (simp add: stringify_def)

lemma stringify_returns:
  assumes "r < length st"
  obtains s st' where "stringify r st = (Inr s, st')" "length st' = length st"
    "\<And>this. st ! r = Builder this \<Longrightarrow> st' ! r = Builder empty_selector"
    "\<And>result. st ! r = Composite result \<Longrightarrow> st' = st"
    "\<And>i. i \<noteq> r \<Longrightarrow> st' ! i = st ! i"
proof (cases "st ! r")
  case (Builder this)
  with assms that [of "Builder_createSelector this" "st[r := Builder empty_selector]"]
  show ?thesis by (simp add: stringify_Builder)
next
  case (Composite result)
  with assms that [of result st] show ?thesis by (simp add: stringify_Composite)
qed

lemma combine_of_stringify:
  assumes "stringify l st = (Inr s1, st1)" and "stringify r st1 = (Inr s2, st2)"
  shows "cssSelectorBuilder_combine l c r st
         = (Inr (length st2), st2 @ [Composite (s1 @ '' '' @ c @ '' '' @ s2)])"
  using assms by (simp add: cssSelectorBuilder_combine_def new_object_def)

lemma stringify_new_Composite:
  "stringify (length st) (st @ [Composite result]) = (Inr result, st @ [Composite result])"
  by (simp add: stringify_def)

lemma combine_returns:
  assumes "cssSelectorBuilder_combine l c r st = (Inr k, st')"
  obtains s1 s2 st2 where "st' = st2 @ [Composite (s1 @ '' '' @ c @ '' '' @ s2)]"
    and "k = length st2"
  using assms
  by (auto simp add: cssSelectorBuilder_combine_def new_object_def
      split: prod.splits sum.splits)

lemma stringify_times_Composite:
  "k < length st \<Longrightarrow> st ! k = Composite result \<Longrightarrow>
     stringify_times n k st = (replicate n (Inr result), st)"
  by (induction n) (simp_all add: stringify_Composite)

lemma call_fragment_Composite:
  "k < length st \<Longrightarrow> st ! k = Composite result \<Longrightarrow>
     call_fragment f k st = (Inl TypeError, st)"
  by (simp add: call_fragment_def)

subsection \<open>The claims\<close>

text \<open>
  C1. In every state a builder can reach through a factory call and fragment calls that
  return, \<open>stringify()\<close> returns the concatenation, in the fixed order and with nothing
  in between, of the element token, \<open>#\<close> and the id if the id is not empty, \<open>.\<close> and the
  classes joined with \<open>.\<close> if there are classes, each attribute in brackets, \<open>:\<close> and the
  pseudo-classes joined with \<open>:\<close> if there are any, \<open>::\<close> and the pseudo-element if it
  is not empty. A category-ordered sequence of calls on a new builder returns, and its
  \<open>stringify()\<close> is that concatenation of the tokens the calls were given. In
  particular \<open>class('x').class('y').stringify()\<close> returns \<open>.x.y\<close>.
\<close>

theorem stringify_reachable:
  "(reachable this \<longrightarrow> fst (Builder_stringify this) = spec_selector_string this)
   \<and> then_stringify (ordered_calls e i cs as ps pe) (Builder_constructor no_options)
       = (Inr (spec_selector_string
            \<lparr> selector_element = token_or_empty e, selector_id = token_or_empty i,
              selector_class = cs, selector_attr = as, selector_pseudoClass = ps,
              selector_pseudoElement = token_or_empty pe \<rparr>), empty_selector)
   \<and> then_stringify [Call_class ''y''] (factory (Call_class ''x'')) = (Inr ''.x.y'', empty_selector)"
proof (intro conjI impI)
  show "fst (Builder_stringify this) = spec_selector_string this"
    by (simp add: Builder_stringify_def createSelector_spec)
next
  show "then_stringify (ordered_calls e i cs as ps pe) (Builder_constructor no_options)
       = (Inr (spec_selector_string
            \<lparr> selector_element = token_or_empty e, selector_id = token_or_empty i,
              selector_class = cs, selector_attr = as, selector_pseudoClass = ps,
              selector_pseudoElement = token_or_empty pe \<rparr>), empty_selector)"
    by (simp add: then_stringify_def constructor_no_options fragments_ordered_calls
        Builder_stringify_def createSelector_spec resetData_empty)
next
  show "then_stringify [Call_class ''y''] (factory (Call_class ''x'')) = (Inr ''.x.y'', empty_selector)"
    by (simp add: then_stringify_def facade_defs Builder_class_def Builder_stringify_def
        createSelector_spec spec_selector_string_def resetData_empty)
qed

theorem stringify_reachable_witness:
  "reachable (cssSelectorBuilder_id ''main'')
   \<and> fst (Builder_stringify (cssSelectorBuilder_id ''main'')) = ''#main''"
proof -
  have r: "reachable (cssSelectorBuilder_id ''main'')"
    using reachable_factory [of "Call_id ''main''"] by simp
  have "spec_selector_string (cssSelectorBuilder_id ''main'') = ''#main''"
    by (simp add: spec_selector_string_def facade_defs)
  with r stringify_reachable [of "cssSelectorBuilder_id ''main''"] show ?thesis
    by simp
qed

text \<open>
  C2. A fragment call of a category, made when a later category of the order element,
  id, class, attribute, pseudo-class, pseudo-element is populated, throws the error
  whose message names that order (the specification's OrderViolation), and leaves the
  builder empty. In particular \<open>id('main').element('div')\<close> throws it.
\<close>

theorem order_violation:
  "(later_populated (category_of c) this \<longrightarrow>
      fragment c this = (Inl (Error order_message), empty_selector))
   \<and> suffix ''order: element, id, class, attribute, pseudo-class, pseudo-element'' order_message
   \<and> fst (fragments [Call_element ''div''] (factory (Call_id ''main'')))
       = Inl (Error order_message)"
proof (intro conjI impI)
  assume "later_populated (category_of c) this"
  then have "fst (fragment c this) = Inl (Error order_message)"
    by (simp add: fragment_order_iff)
  with fragment_cases [of c this]
  show "fragment c this = (Inl (Error order_message), empty_selector)"
    by (auto simp add: messages_differ)
next
  show "suffix ''order: element, id, class, attribute, pseudo-class, pseudo-element'' order_message"
    by (simp add: order_message_def suffix_def)
next
  show "fst (fragments [Call_element ''div''] (factory (Call_id ''main'')))
       = Inl (Error order_message)"
    by (simp add: facade_defs Builder_element_def)
qed

theorem order_violation_witness:
  "later_populated (category_of (Call_pseudoClass ''hover'')) (cssSelectorBuilder_pseudoElement ''after'')
   \<and> fragment (Call_pseudoClass ''hover'') (cssSelectorBuilder_pseudoElement ''after'')
       = (Inl (Error order_message), empty_selector)"
proof -
  have h: "later_populated (category_of (Call_pseudoClass ''hover''))
             (cssSelectorBuilder_pseudoElement ''after'')"
    by (simp add: facade_defs later_populated_simps)
  with order_violation [of "Call_pseudoClass ''hover''" "cssSelectorBuilder_pseudoElement ''after''"]
  show ?thesis by blast
qed


text \<open>
  C3. A call of \<open>element\<close>, \<open>id\<close> or \<open>pseudoElement\<close> on a builder whose token of that
  category is already set, while no later category is populated, throws the error whose
  message says that element, id and pseudo-element occur at most once (the
  specification's DuplicateViolation), and leaves the builder empty. In particular
  \<open>id('a').id('b')\<close> throws it.
\<close>

theorem duplicate_violation:
  "(singleton_category (category_of c) \<and> populated (category_of c) this
      \<and> \<not> later_populated (category_of c) this \<longrightarrow>
      fragment c this = (Inl (Error duplicate_message), empty_selector))
   \<and> duplicate_message
       = ''Element, id and pseudo-element should not occur more then one time inside the selector''
   \<and> fst (fragments [Call_id ''b''] (factory (Call_id ''a''))) = Inl (Error duplicate_message)"
proof (intro conjI impI)
  assume "singleton_category (category_of c) \<and> populated (category_of c) this
      \<and> \<not> later_populated (category_of c) this"
  then have "fst (fragment c this) = Inl (Error duplicate_message)"
    by (simp add: fragment_duplicate_iff)
  with fragment_cases [of c this]
  show "fragment c this = (Inl (Error duplicate_message), empty_selector)"
    by (auto simp add: messages_differ)
next
  show "duplicate_message
       = ''Element, id and pseudo-element should not occur more then one time inside the selector''"
    by (simp add: duplicate_message_def)
next
  show "fst (fragments [Call_id ''b''] (factory (Call_id ''a''))) = Inl (Error duplicate_message)"
    by (simp add: facade_defs Builder_id_def)
qed

theorem duplicate_violation_witness:
  "singleton_category (category_of (Call_pseudoElement ''after''))
   \<and> populated (category_of (Call_pseudoElement ''after'')) (cssSelectorBuilder_pseudoElement ''before'')
   \<and> \<not> later_populated (category_of (Call_pseudoElement ''after''))
         (cssSelectorBuilder_pseudoElement ''before'')
   \<and> fragment (Call_pseudoElement ''after'') (cssSelectorBuilder_pseudoElement ''before'')
       = (Inl (Error duplicate_message), empty_selector)"
proof -
  have h: "singleton_category (category_of (Call_pseudoElement ''after''))
   \<and> populated (category_of (Call_pseudoElement ''after'')) (cssSelectorBuilder_pseudoElement ''before'')
   \<and> \<not> later_populated (category_of (Call_pseudoElement ''after''))
         (cssSelectorBuilder_pseudoElement ''before'')"
    by (simp add: facade_defs later_populated_simps)
  with duplicate_violation [of "Call_pseudoElement ''after''" "cssSelectorBuilder_pseudoElement ''before''"]
  show ?thesis by blast
qed

text \<open>
  C4. Whenever a fragment call throws, the error is one of the two above and the
  builder is left with an empty element, id and pseudo-element and no classes,
  attributes or pseudo-classes: nothing from before the failure is kept.
\<close>

theorem failure_resets:
  "fst (fragment c this) = Inl e \<longrightarrow>
     snd (fragment c this)
       = \<lparr> selector_element = [], selector_id = [], selector_class = [],
           selector_attr = [], selector_pseudoClass = [], selector_pseudoElement = [] \<rparr>
     \<and> (e = Error order_message \<or> e = Error duplicate_message)"
  using fragment_cases [of c this] by (auto simp add: empty_selector_def)

theorem failure_resets_witness:
  "fst (fragment (Call_element ''div'') (cssSelectorBuilder_class ''container''))
     = Inl (Error order_message)
   \<and> snd (fragment (Call_element ''div'') (cssSelectorBuilder_class ''container''))
     = \<lparr> selector_element = [], selector_id = [], selector_class = [],
         selector_attr = [], selector_pseudoClass = [], selector_pseudoElement = [] \<rparr>"
proof -
  have h: "fst (fragment (Call_element ''div'') (cssSelectorBuilder_class ''container''))
     = Inl (Error order_message)"
    by (simp add: facade_defs Builder_element_def)
  with failure_resets [of "Call_element ''div''" "cssSelectorBuilder_class ''container''"
      "Error order_message"]
  show ?thesis by simp
qed

text \<open>
  C5. \<open>stringify()\<close> leaves the builder empty, in whatever state it was called, and a
  second \<open>stringify()\<close> right after it returns the empty string.
\<close>

theorem stringify_resets:
  "snd (Builder_stringify this)
     = \<lparr> selector_element = [], selector_id = [], selector_class = [],
         selector_attr = [], selector_pseudoClass = [], selector_pseudoElement = [] \<rparr>
   \<and> fst (Builder_stringify (snd (Builder_stringify this))) = []
   \<and> snd (Builder_stringify (snd (Builder_stringify this))) = snd (Builder_stringify this)"
  by (simp add: Builder_stringify_def resetData_empty createSelector_spec)
     (simp add: empty_selector_def spec_selector_string_def)

theorem stringify_resets_witness:
  "fst (Builder_stringify (cssSelectorBuilder_element ''div'')) = ''div''
   \<and> fst (Builder_stringify (snd (Builder_stringify (cssSelectorBuilder_element ''div'')))) = []"
proof -
  have "fst (Builder_stringify (cssSelectorBuilder_element ''div'')) = ''div''"
    by (simp add: Builder_stringify_def createSelector_spec spec_selector_string_def
        facade_defs)
  with stringify_resets [of "cssSelectorBuilder_element ''div''"] show ?thesis
    by blast
qed


text \<open>
  C6. For two references \<open>l\<close> and \<open>r\<close> to objects of the store (builders or results of
  \<open>combine\<close>, the same object or not) and every combinator string \<open>c\<close>, \<open>combine\<close> calls
  \<open>stringify\<close> on \<open>l\<close>, then on \<open>r\<close>, and returns a new object whose \<open>stringify()\<close>
  returns the first string, one space, \<open>c\<close>, one space and the second string; operands
  that are builders are left empty. When \<open>l\<close> and \<open>r\<close> are different objects the second
  string is what \<open>stringify\<close> returns for \<open>r\<close> in the store before the call. In
  particular \<open>combine(element('div').id('main'), '+', element('table').id('data'))\<close>
  gives \<open>div#main + table#data\<close>.
\<close>

theorem combine_stringify:
  "(l < length st \<and> r < length st \<longrightarrow>
     (\<exists>s1 st1 s2 st2.
        stringify l st = (Inr s1, st1) \<and> stringify r st1 = (Inr s2, st2)
        \<and> (l \<noteq> r \<longrightarrow> fst (stringify r st) = Inr s2)
        \<and> cssSelectorBuilder_combine l c r st
            = (Inr (length st), st2 @ [Composite (s1 @ '' '' @ c @ '' '' @ s2)])
        \<and> stringify (length st) (st2 @ [Composite (s1 @ '' '' @ c @ '' '' @ s2)])
            = (Inr (s1 @ '' '' @ c @ '' '' @ s2), st2 @ [Composite (s1 @ '' '' @ c @ '' '' @ s2)])
        \<and> (\<forall>this. st ! l = Builder this \<longrightarrow> st2 ! l = Builder empty_selector)
        \<and> (\<forall>this. st ! r = Builder this \<longrightarrow> st2 ! r = Builder empty_selector)))
   \<and> (case evaluate (Combine (Chain (Call_element ''div'') [Call_id ''main'']) ''+''
                              (Chain (Call_element ''table'') [Call_id ''data''])) [] of
         (Inl e, st') \<Rightarrow> None
       | (Inr k, st') \<Rightarrow> Some (fst (stringify k st')))
      = Some (Inr ''div#main + table#data'')"
proof (intro conjI impI)
  assume lr: "l < length st \<and> r < length st"
  then obtain s1 st1 where 1: "stringify l st = (Inr s1, st1)" "length st1 = length st"
    "\<And>this. st ! l = Builder this \<Longrightarrow> st1 ! l = Builder empty_selector"
    "\<And>i. i \<noteq> l \<Longrightarrow> st1 ! i = st ! i"
    using stringify_returns [of l st] by metis
  from lr 1 have "r < length st1" by simp
  then obtain s2 st2 where 2: "stringify r st1 = (Inr s2, st2)" "length st2 = length st1"
    "\<And>this. st1 ! r = Builder this \<Longrightarrow> st2 ! r = Builder empty_selector"
    "\<And>result. st1 ! r = Composite result \<Longrightarrow> st2 = st1"
    "\<And>i. i \<noteq> r \<Longrightarrow> st2 ! i = st1 ! i"
    using stringify_returns [of r st1] by metis
  have a: "l \<noteq> r \<longrightarrow> fst (stringify r st) = Inr s2"
  proof
    assume d: "l \<noteq> r"
    then have same: "st1 ! r = st ! r" using 1(4) by simp
    show "fst (stringify r st) = Inr s2"
    proof (cases "st ! r")
      case (Builder this)
      with lr same 2(1) \<open>r < length st1\<close> show ?thesis
        by (simp add: stringify_Builder)
    next
      case (Composite result)
      with lr same 2(1) \<open>r < length st1\<close> show ?thesis
        by (simp add: stringify_Composite)
    qed
  qed
  have b: "\<forall>this. st ! l = Builder this \<longrightarrow> st2 ! l = Builder empty_selector"
  proof (intro allI impI)
    fix this assume l: "st ! l = Builder this"
    show "st2 ! l = Builder empty_selector"
    proof (cases "l = r")
      case True
      with 1(3) [OF l] 2(3) show ?thesis by simp
    next
      case False
      with 2(5) [of l] 1(3) [OF l] show ?thesis by simp
    qed
  qed
  have c: "\<forall>this. st ! r = Builder this \<longrightarrow> st2 ! r = Builder empty_selector"
  proof (intro allI impI)
    fix this assume r: "st ! r = Builder this"
    show "st2 ! r = Builder empty_selector"
    proof (cases "l = r")
      case True
      with 1(3) r 2(3) show ?thesis by simp
    next
      case False
      with 1(4) [of r] r 2(3) show ?thesis by simp
    qed
  qed
  have d: "cssSelectorBuilder_combine l c r st
            = (Inr (length st), st2 @ [Composite (s1 @ '' '' @ c @ '' '' @ s2)])"
    using combine_of_stringify [OF 1(1) 2(1)] 1(2) 2(2) by simp
  have e: "stringify (length st) (st2 @ [Composite (s1 @ '' '' @ c @ '' '' @ s2)])
            = (Inr (s1 @ '' '' @ c @ '' '' @ s2), st2 @ [Composite (s1 @ '' '' @ c @ '' '' @ s2)])"
    using stringify_new_Composite [of st2] 1(2) 2(2) by simp
  from 1(1) 2(1) a b c d e
  show "\<exists>s1 st1 s2 st2.
        stringify l st = (Inr s1, st1) \<and> stringify r st1 = (Inr s2, st2)
        \<and> (l \<noteq> r \<longrightarrow> fst (stringify r st) = Inr s2)
        \<and> cssSelectorBuilder_combine l c r st
            = (Inr (length st), st2 @ [Composite (s1 @ '' '' @ c @ '' '' @ s2)])
        \<and> stringify (length st) (st2 @ [Composite (s1 @ '' '' @ c @ '' '' @ s2)])
            = (Inr (s1 @ '' '' @ c @ '' '' @ s2), st2 @ [Composite (s1 @ '' '' @ c @ '' '' @ s2)])
        \<and> (\<forall>this. st ! l = Builder this \<longrightarrow> st2 ! l = Builder empty_selector)
        \<and> (\<forall>this. st ! r = Builder this \<longrightarrow> st2 ! r = Builder empty_selector)"
    by blast
next
  show "(case evaluate (Combine (Chain (Call_element ''div'') [Call_id ''main'']) ''+''
                              (Chain (Call_element ''table'') [Call_id ''data''])) [] of
         (Inl e, st') \<Rightarrow> None
       | (Inr k, st') \<Rightarrow> Some (fst (stringify k st')))
      = Some (Inr ''div#main + table#data'')"
    by (simp add: new_object_def call_fragment_def facade_defs Builder_id_def
        cssSelectorBuilder_combine_def stringify_def Builder_stringify_def
        Builder_createSelector_def Builder_resetData_def)
qed


theorem combine_stringify_witness:
  "cssSelectorBuilder_combine 0 '' '' 1
     [Builder (cssSelectorBuilder_element ''tr''), Builder (cssSelectorBuilder_element ''td'')]
   = (Inr 2, [Builder empty_selector, Builder empty_selector, Composite ''tr   td''])
   \<and> stringify 2 [Builder empty_selector, Builder empty_selector, Composite ''tr   td'']
   = (Inr ''tr   td'', [Builder empty_selector, Builder empty_selector, Composite ''tr   td''])"
proof -
  let ?st = "[Builder (cssSelectorBuilder_element ''tr''), Builder (cssSelectorBuilder_element ''td'')]"
  have l: "stringify 0 ?st = (Inr ''tr'', [Builder empty_selector, Builder (cssSelectorBuilder_element ''td'')])"
    by (simp add: stringify_def Builder_stringify_def resetData_empty createSelector_spec
        spec_selector_string_def facade_defs)
  have r: "stringify 1 [Builder empty_selector, Builder (cssSelectorBuilder_element ''td'')]
           = (Inr ''td'', [Builder empty_selector, Builder empty_selector])"
    by (simp add: stringify_def Builder_stringify_def resetData_empty createSelector_spec
        spec_selector_string_def facade_defs)
  have "(0::nat) < length ?st \<and> 1 < length ?st" by simp
  with combine_stringify [of 0 ?st 1 "'' ''"] l r show ?thesis
    by (auto simp add: numeral_2_eq_2)
qed

text \<open>
  C7. The object \<open>combine\<close> returns holds the string computed at the call: every
  \<open>stringify()\<close> on it, repeated any number of times, returns that string and leaves
  the whole store as it was, the object itself and the operands included; it has no
  fragment methods to change it.
\<close>

theorem composite_immutable:
  "cssSelectorBuilder_combine l c r st = (Inr k, st') \<longrightarrow>
     (\<exists>result. st' ! k = Composite result
        \<and> stringify k st' = (Inr result, st')
        \<and> stringify_times n k st' = (replicate n (Inr result), st')
        \<and> call_fragment f k st' = (Inl TypeError, st'))"
proof
  assume "cssSelectorBuilder_combine l c r st = (Inr k, st')"
  then obtain s1 s2 st2 where st': "st' = st2 @ [Composite (s1 @ '' '' @ c @ '' '' @ s2)]"
    and k: "k = length st2"
    by (rule combine_returns)
  let ?result = "s1 @ '' '' @ c @ '' '' @ s2"
  have in_store: "k < length st'" and is_composite: "st' ! k = Composite ?result"
    using st' k by simp_all
  show "\<exists>result. st' ! k = Composite result
        \<and> stringify k st' = (Inr result, st')
        \<and> stringify_times n k st' = (replicate n (Inr result), st')
        \<and> call_fragment f k st' = (Inl TypeError, st')"
    using is_composite stringify_Composite [OF in_store is_composite]
      stringify_times_Composite [OF in_store is_composite]
      call_fragment_Composite [OF in_store is_composite]
    by blast
qed

theorem composite_immutable_witness:
  "cssSelectorBuilder_combine 0 ''>'' 1
     [Builder (cssSelectorBuilder_element ''ul''), Builder (cssSelectorBuilder_element ''li'')]
   = (Inr 2, [Builder empty_selector, Builder empty_selector, Composite ''ul > li''])
   \<and> stringify_times 3 2 [Builder empty_selector, Builder empty_selector, Composite ''ul > li'']
   = ([Inr ''ul > li'', Inr ''ul > li'', Inr ''ul > li''],
      [Builder empty_selector, Builder empty_selector, Composite ''ul > li''])"
proof -
  have c: "cssSelectorBuilder_combine 0 ''>'' 1
     [Builder (cssSelectorBuilder_element ''ul''), Builder (cssSelectorBuilder_element ''li'')]
   = (Inr 2, [Builder empty_selector, Builder empty_selector, Composite ''ul > li''])"
    by (simp add: cssSelectorBuilder_combine_def new_object_def stringify_def
        Builder_stringify_def resetData_empty createSelector_spec spec_selector_string_def
        facade_defs)
  let ?st' = "[Builder empty_selector, Builder empty_selector, Composite ''ul > li'']"
  from c composite_immutable [of 0 "''>''" 1 _ 2 ?st' 3 "Call_id ''x''"]
  obtain result where "?st' ! 2 = Composite result"
    and "stringify_times 3 2 ?st' = (replicate 3 (Inr result), ?st')"
    by blast
  then have "stringify_times 3 2 ?st' = (replicate 3 (Inr ''ul > li''), ?st')"
    by simp
  with c show ?thesis
    by (simp add: numeral_3_eq_3)
qed

text \<open>
  C8. The chain
  \<open>element('a').id('x').class('b').class('c').attr('href$=".png"').pseudoClass('focus').pseudoElement('before')\<close>
  runs without an error and its \<open>stringify()\<close> returns \<open>a#x.b.c[href$=".png"]:focus::before\<close>.
\<close>

theorem full_chain_stringify:
  \<open>then_stringify [Call_id ''x'', Call_class ''b'', Call_class ''c'', Call_attr ''href$=".png"'',
                   Call_pseudoClass ''focus'', Call_pseudoElement ''before'']
     (factory (Call_element ''a''))
   = (Inr ''a#x.b.c[href$=".png"]:focus::before'', empty_selector)\<close>
  by (simp add: then_stringify_def facade_defs method_defs Builder_stringify_def
      Builder_createSelector_def resetData_empty)

text \<open>
  C9. The empty string stands for "not set": \<open>element\<close>, \<open>id\<close> and \<open>pseudoElement\<close>
  throw the duplicate error only when the stored token of their category is not the
  empty string. So \<open>element('')\<close> followed by \<open>element('x')\<close> returns, with \<open>x\<close> stored.
\<close>

theorem empty_string_sentinel:
  "(fst (Builder_element v this) = Inl (Error duplicate_message) \<longrightarrow> selector_element this \<noteq> [])
   \<and> (fst (Builder_id v this) = Inl (Error duplicate_message) \<longrightarrow> selector_id this \<noteq> [])
   \<and> (fst (Builder_pseudoElement v this) = Inl (Error duplicate_message)
        \<longrightarrow> selector_pseudoElement this \<noteq> [])
   \<and> fragments [Call_element ''x''] (factory (Call_element []))
       = (Inr (), empty_selector\<lparr>selector_element := ''x''\<rparr>)"
  by (simp add: method_defs facade_defs messages_differ empty_selector_def)

theorem empty_string_sentinel_witness:
  "fst (Builder_id ''b'' (cssSelectorBuilder_id ''a'')) = Inl (Error duplicate_message)
   \<and> selector_id (cssSelectorBuilder_id ''a'') \<noteq> []
   \<and> fst (Builder_id ''b'' (cssSelectorBuilder_id [])) = Inr ()"
proof -
  have "fst (Builder_id ''b'' (cssSelectorBuilder_id ''a'')) = Inl (Error duplicate_message)"
    by (simp add: Builder_id_def facade_defs)
  moreover have "fst (Builder_id ''b'' (cssSelectorBuilder_id [])) = Inr ()"
    by (simp add: Builder_id_def facade_defs)
  ultimately show ?thesis
    using empty_string_sentinel [of "''b''" "cssSelectorBuilder_id ''a''"] by blast
qed

text \<open>
  C10. After \<open>stringify()\<close>, and after a fragment call that threw, the builder is in the
  state of a builder constructed with no options. So any sequence of fragment calls
  returns or throws on it as on a new builder, and a following \<open>stringify()\<close> returns
  the same string on both: only what was added after the reset.
\<close>

theorem reset_is_fresh:
  "snd (Builder_stringify this) = Builder_constructor no_options
   \<and> (fst (fragment c this) = Inl e \<longrightarrow> snd (fragment c this) = Builder_constructor no_options)
   \<and> fragments cs (snd (Builder_stringify this)) = fragments cs (Builder_constructor no_options)
   \<and> then_stringify cs (snd (Builder_stringify this))
       = then_stringify cs (Builder_constructor no_options)
   \<and> (fst (fragment c this) = Inl e \<longrightarrow>
        fragments cs (snd (fragment c this)) = fragments cs (Builder_constructor no_options)
        \<and> then_stringify cs (snd (fragment c this))
            = then_stringify cs (Builder_constructor no_options))"
  using fragment_cases [of c this]
  by (auto simp add: Builder_stringify_def resetData_empty constructor_no_options)

theorem reset_is_fresh_witness:
  "fst (fragment (Call_element ''div'') (cssSelectorBuilder_id ''main''))
     = Inl (Error order_message)
   \<and> then_stringify [Call_class ''x'']
       (snd (fragment (Call_element ''div'') (cssSelectorBuilder_id ''main'')))
     = (Inr ''.x'', empty_selector)
   \<and> then_stringify [Call_class ''x''] (snd (Builder_stringify (cssSelectorBuilder_id ''main'')))
     = (Inr ''.x'', empty_selector)"
proof -
  have h: "fst (fragment (Call_element ''div'') (cssSelectorBuilder_id ''main''))
     = Inl (Error order_message)"
    by (simp add: facade_defs Builder_element_def)
  have f: "then_stringify [Call_class ''x''] (Builder_constructor no_options)
     = (Inr ''.x'', empty_selector)"
    by (simp add: then_stringify_def facade_defs Builder_class_def Builder_stringify_def
        createSelector_spec spec_selector_string_def resetData_empty)
  from h f reset_is_fresh [of "cssSelectorBuilder_id ''main''" "Call_element ''div''"
      "Error order_message" "[Call_class ''x'']"]
  show ?thesis by simp
qed

subsection \<open>The examples of the source's documentation\<close>

lemma documentation_example_id_classes:
  "then_stringify [Call_class ''container'', Call_class ''editable''] (factory (Call_id ''main''))
   = (Inr ''#main.container.editable'', empty_selector)"
  by (simp add: then_stringify_def facade_defs method_defs Builder_stringify_def
      Builder_createSelector_def resetData_empty)

lemma documentation_example_attr:
  \<open>then_stringify [Call_attr ''href$=".png"'', Call_pseudoClass ''focus'']
     (factory (Call_element ''a''))
   = (Inr ''a[href$=".png"]:focus'', empty_selector)\<close>
  by (simp add: then_stringify_def facade_defs method_defs Builder_stringify_def
      Builder_createSelector_def resetData_empty)

lemma documentation_example_combine:
  "(case evaluate
      (Combine
        (Chain (Call_element ''div'')
           [Call_id ''main'', Call_class ''container'', Call_class ''draggable''])
        ''+''
        (Combine
          (Chain (Call_element ''table'') [Call_id ''data''])
          ''~''
          (Combine
            (Chain (Call_element ''tr'') [Call_pseudoClass ''nth-of-type(even)''])
            '' ''
            (Chain (Call_element ''td'') [Call_pseudoClass ''nth-of-type(even)''])))) [] of
      (Inl e, st') \<Rightarrow> None
    | (Inr k, st') \<Rightarrow> Some (fst (stringify k st')))
   = Some (Inr ''div#main.container.draggable + table#data ~ tr:nth-of-type(even)   td:nth-of-type(even)'')"
  by (simp add: new_object_def call_fragment_def facade_defs method_defs
      cssSelectorBuilder_combine_def stringify_def Builder_stringify_def
      Builder_createSelector_def Builder_resetData_def)

end
